theory Spec2Isabelle
  imports Complex_Main
begin

section \<open>Data model\<close>

text \<open>
  The handlers of \<^verbatim>\<open>app/main.py\<close> return Python dicts built from string keys, strings,
  integers and lists. A dict keeps its insertion order, so an object is an association
  list in the order the source writes the keys.
\<close>

datatype json = JInt int | JStr string | JList "json list" | JObj "(string \<times> json) list"

text \<open>
  Of the request the source reads \<^verbatim>\<open>request.method\<close> (the field \<open>http_method\<close>) and
  \<^verbatim>\<open>request.url.path\<close> only; the record is extensible, so a request may carry anything
  else in its \<open>more\<close> part.
\<close>

record request =
  http_method :: string
  path :: string

record response =
  status_code :: int
  body :: json

text \<open>
  What the code reads and writes outside its own variables: the process environment
  (\<^verbatim>\<open>os.environ\<close>), the lines handed to \<^verbatim>\<open>logger.info\<close> in the order they are emitted,
  and the wall clock. \<open>ticks w n\<close> is the value the \<open>n\<close>-th call of \<^verbatim>\<open>time.time()\<close>
  returns (seconds, the exact value of the float) and \<open>reads w\<close> counts the calls made
  so far.
\<close>

record world =
  environ :: "string \<rightharpoonup> string"
  log_lines :: "string list"
  ticks :: "nat \<Rightarrow> rat"
  reads :: nat

definition time_time :: "world \<Rightarrow> rat \<times> world" where
  "time_time w = (ticks w (reads w), w\<lparr>reads := Suc (reads w)\<rparr>)"

definition logger_info :: "string \<Rightarrow> world \<Rightarrow> world" where
  "logger_info msg w = w\<lparr>log_lines := log_lines w @ [msg]\<rparr>"

definition getenv :: "world \<Rightarrow> string \<Rightarrow> string \<Rightarrow> string" where
  \<comment> \<open>\<^verbatim>\<open>os.getenv(key, default)\<close>: the default only when the key is not in the environment.\<close>
  "getenv w key dflt = (case environ w key of None \<Rightarrow> dflt | Some v \<Rightarrow> v)"

section \<open>Route handlers\<close>

definition root_handler :: "world \<Rightarrow> json \<times> world" where
  \<comment> \<open>\<^verbatim>\<open>root()\<close>, bound to \<^verbatim>\<open>GET /\<close>.\<close>
  "root_handler w =
     (let w1 = logger_info ''Root endpoint accessed'' w
      in (JObj [(''message'', JStr ''Welcome to FastAPI GitOps Demo''),
                (''version'', JStr ''1.0.0''),
                (''environment'', JStr (getenv w1 ''ENVIRONMENT'' ''development''))],
          w1))"

definition health :: "world \<Rightarrow> json \<times> world" where
  "health w = (JObj [(''status'', JStr ''healthy''), (''service'', JStr ''fastapi-demo'')], w)"

definition ready :: "world \<Rightarrow> json \<times> world" where
  "ready w = (JObj [(''status'', JStr ''ready''), (''service'', JStr ''fastapi-demo'')], w)"

definition get_items :: "world \<Rightarrow> json \<times> world" where
  "get_items w =
     (let w1 = logger_info ''Items endpoint accessed'' w
      in (JObj [(''items'', JList
            [JObj [(''id'', JInt 1), (''name'', JStr ''Item 1''), (''description'', JStr ''First item'')],
             JObj [(''id'', JInt 2), (''name'', JStr ''Item 2''), (''description'', JStr ''Second item'')],
             JObj [(''id'', JInt 3), (''name'', JStr ''Item 3''), (''description'', JStr ''Third item'')]])],
          w1))"

definition status :: "world \<Rightarrow> json \<times> world" where
  "status w =
     (JObj [(''app'', JStr ''fastapi-demo''),
            (''version'', JStr ''1.0.0''),
            (''status'', JStr ''running''),
            (''environment'', JStr (getenv w ''ENVIRONMENT'' ''development''))],
      w)"

section \<open>Formatting\<close>

text \<open>
  The log line is the f-string
  \<^verbatim>\<open>f"{method} {path} - {status_code} - {duration:.3f}s"\<close>. An integer is rendered in
  decimal; a float under \<^verbatim>\<open>.3f\<close> is rounded to thousandths, a tie going to the even
  neighbour, and keeps its sign even when it rounds to zero.
\<close>

definition digit_char :: "nat \<Rightarrow> char" where
  "digit_char d = ''0123456789'' ! d"

fun digits :: "nat \<Rightarrow> string" where
  "digits n = (if n < 10 then [digit_char n] else digits (n div 10) @ [digit_char (n mod 10)])"

declare digits.simps [simp del]

definition str_int :: "int \<Rightarrow> string" where
  "str_int i = (if i < 0 then ''-'' @ digits (nat (- i)) else digits (nat i))"

definition round_half_even :: "rat \<Rightarrow> int" where
  "round_half_even x =
     (let f = \<lfloor>x\<rfloor>; r = x - of_int f
      in if r < 1 / 2 then f else if 1 / 2 < r then f + 1 else if even f then f else f + 1)"

definition format_3f :: "rat \<Rightarrow> string" where
  "format_3f x =
     (let n = nat (round_half_even (\<bar>x\<bar> * 1000))
      in (if x < 0 then ''-'' else []) @ digits (n div 1000) @ ''.'' @
         [digit_char (n mod 1000 div 100), digit_char (n mod 100 div 10), digit_char (n mod 10)])"

definition timing_line :: "string \<Rightarrow> string \<Rightarrow> int \<Rightarrow> rat \<Rightarrow> string" where
  "timing_line m p sc duration =
     m @ '' '' @ p @ '' - '' @ str_int sc @ '' - '' @ format_3f duration @ ''s''"

section \<open>Logging middleware\<close>

datatype exn = Exception string

text \<open>
  \<open>call_next\<close> is the downstream handler. It either produces a response or raises; an
  exception raised by \<^verbatim>\<open>await call_next(request)\<close> leaves the function at that line, so
  the second clock read and the log call are not reached. Clock values are the exact
  rational values of the floats; two readings within a factor of two of each other
  subtract without rounding, so \<open>now - start_time\<close> is the float difference.
\<close>

definition logging_middleware ::
  "'a request_scheme \<Rightarrow> ('a request_scheme \<Rightarrow> world \<Rightarrow> ('e + 'b response_scheme) \<times> world)
     \<Rightarrow> world \<Rightarrow> ('e + 'b response_scheme) \<times> world" where
  "logging_middleware req call_next w =
     (let (start_time, w1) = time_time w;
          m = http_method req;
          p = path req;
          (r, w2) = call_next req w1
      in case r of
           Inl e \<Rightarrow> (Inl e, w2)
         | Inr resp \<Rightarrow>
             (let (now, w3) = time_time w2;
                  duration = now - start_time;
                  sc = status_code resp
              in (Inr resp, logger_info (timing_line m p sc duration) w3)))"

section \<open>Routing\<close>

text \<open>
  The five \<^verbatim>\<open>@app.get(path)\<close> decorators bind a handler to the method GET and an exact
  path. What the framework answers to any other method or path is not decided by this
  source, so \<open>endpoint\<close> is \<open>None\<close> there. A path operation declared without a
  status code answers 200 with the returned dict as its JSON body.
\<close>

definition routes :: "((string \<times> string) \<times> (world \<Rightarrow> json \<times> world)) list" where
  "routes =
     [((''GET'', ''/''), root_handler),
      ((''GET'', ''/health''), health),
      ((''GET'', ''/ready''), ready),
      ((''GET'', ''/api/items''), get_items),
      ((''GET'', ''/api/status''), status)]"

definition endpoint :: "'a request_scheme \<Rightarrow> (world \<Rightarrow> json \<times> world) option" where
  "endpoint req = map_of routes (http_method req, path req)"

definition path_operation ::
  "(world \<Rightarrow> json \<times> world) \<Rightarrow> 'a request_scheme \<Rightarrow> world \<Rightarrow> (exn + response) \<times> world" where
  "path_operation h req w =
     (let (content, w') = h w in (Inr \<lparr>status_code = 200, body = content\<rparr>, w'))"

definition app :: "'a request_scheme \<Rightarrow> world \<Rightarrow> ((exn + response) \<times> world) option" where
  "app req w =
     (case endpoint req of
        None \<Rightarrow> None
      | Some h \<Rightarrow> Some (logging_middleware req (path_operation h) w))"

section \<open>Properties of the log line's number format\<close>



section \<open>Example inputs\<close>

text \<open>
  Two worlds in which no clock read has been made yet: in the first the clock advances
  by a quarter of a second between the first and the second read, in the second it is
  set back by two seconds. And a plain GET request to \<^verbatim>\<open>/health\<close>.
\<close>

definition quarter_second_world :: world where
  "quarter_second_world =
     \<lparr>environ = Map.empty, log_lines = [''started''],
      ticks = (\<lambda>n. if n = 0 then 10 else 41 / 4), reads = 0\<rparr>"

definition clock_set_back_world :: world where
  "clock_set_back_world =
     \<lparr>environ = Map.empty, log_lines = [], ticks = (\<lambda>n. if n = 0 then 5 else 3), reads = 0\<rparr>"

definition get_health :: request where
  "get_health = \<lparr>http_method = ''GET'', path = ''/health''\<rparr>"

section \<open>Auxiliary facts\<close>

lemma time_time_simps:
  "fst (time_time w) = ticks w (reads w)" "snd (time_time w) = w\<lparr>reads := Suc (reads w)\<rparr>"
  by (simp_all add: time_time_def)







lemma round_half_even_close: "\<bar>of_int (round_half_even x) - x\<bar> \<le> 1 / 2"
proof -
  have "of_int \<lfloor>x\<rfloor> \<le> x" "x < of_int \<lfloor>x\<rfloor> + 1" by linarith+
  then show ?thesis by (auto simp: round_half_even_def Let_def abs_le_iff)
qed

lemmas handler_defs = root_handler_def health_def ready_def get_items_def status_def
  logger_info_def getenv_def

lemma endpoint_cases:
  "endpoint req = Some h \<Longrightarrow>
     h = root_handler \<or> h = health \<or> h = ready \<or> h = get_items \<or> h = status"
  by (simp add: endpoint_def routes_def split: if_splits)

lemma endpoint_simps:
  "endpoint (req\<lparr>http_method := ''GET'', path := ''/''\<rparr>) = Some root_handler"
  "endpoint (req\<lparr>http_method := ''GET'', path := ''/health''\<rparr>) = Some health"
  "endpoint (req\<lparr>http_method := ''GET'', path := ''/ready''\<rparr>) = Some ready"
  "endpoint (req\<lparr>http_method := ''GET'', path := ''/api/items''\<rparr>) = Some get_items"
  "endpoint (req\<lparr>http_method := ''GET'', path := ''/api/status''\<rparr>) = Some status"
  by (simp_all add: endpoint_def routes_def)

lemma middleware_response:
  "logging_middleware req call_next w =
     (case call_next req (w\<lparr>reads := Suc (reads w)\<rparr>) of
        (Inl e, w2) \<Rightarrow> (Inl e, w2)
      | (Inr resp, w2) \<Rightarrow>
          (Inr resp,
           logger_info
             (timing_line (http_method req) (path req) (status_code resp)
                (ticks w2 (reads w2) - ticks w (reads w)))
             (w2\<lparr>reads := Suc (reads w2)\<rparr>)))"
  by (simp add: logging_middleware_def time_time_def Let_def split: prod.splits sum.splits)

lemma middleware_propagates_exception:
  "call_next req (snd (time_time w)) = (Inl e, w2) \<Longrightarrow>
   logging_middleware req call_next w = (Inl e, w2)"
  by (simp add: middleware_response time_time_simps)

lemma app_routed:
  "endpoint req = Some h \<Longrightarrow>
   app req w =
     Some (Inr \<lparr>status_code = 200, body = fst (h (w\<lparr>reads := Suc (reads w)\<rparr>))\<rparr>,
           logger_info
             (timing_line (http_method req) (path req) 200
                (ticks (snd (h (w\<lparr>reads := Suc (reads w)\<rparr>)))
                   (reads (snd (h (w\<lparr>reads := Suc (reads w)\<rparr>)))) - ticks w (reads w)))
             ((snd (h (w\<lparr>reads := Suc (reads w)\<rparr>)))
                \<lparr>reads := Suc (reads (snd (h (w\<lparr>reads := Suc (reads w)\<rparr>))))\<rparr>))"
  by (simp add: app_def middleware_response path_operation_def Let_def split: prod.splits)

lemma handler_frame:
  assumes "endpoint req = Some h"
  shows "environ (snd (h w)) = environ w" "ticks (snd (h w)) = ticks w"
    "reads (snd (h w)) = reads w"
  using endpoint_cases [OF assms] by (auto simp: handler_defs Let_def)

lemma handler_body_environ:
  assumes "endpoint req = Some h" "environ w1 = environ w2"
  shows "fst (h w1) = fst (h w2)"
  using endpoint_cases [OF assms(1)] assms(2) by (auto simp: handler_defs Let_def)

section \<open>The claims\<close>

text \<open>
  C1. A GET request to \<^verbatim>\<open>/api/items\<close> is answered with exactly the three items with
  ids 1, 2, 3 and the names and descriptions "Item 1"/"First item", "Item 2"/"Second
  item", "Item 3"/"Third item", in that order, whatever else the request carries and
  whatever the environment, the log and the clock are.
\<close>

theorem get_items_fixed_list:
  "map_option fst (app (req\<lparr>http_method := ''GET'', path := ''/api/items''\<rparr>) w) =
     Some (Inr \<lparr>status_code = 200,
       body = JObj [(''items'', JList
         [JObj [(''id'', JInt 1), (''name'', JStr ''Item 1''), (''description'', JStr ''First item'')],
          JObj [(''id'', JInt 2), (''name'', JStr ''Item 2''), (''description'', JStr ''Second item'')],
          JObj [(''id'', JInt 3), (''name'', JStr ''Item 3''), (''description'', JStr ''Third item'')]])]\<rparr>)"
  by (simp add: app_routed [OF endpoint_simps(4)] get_items_def Let_def)

text \<open>
  C2. A GET request to \<^verbatim>\<open>/\<close> reports "development" in the environment field when
  \<^verbatim>\<open>ENVIRONMENT\<close> is not in the process environment, "staging" when the variable is set
  to "staging", and in general the value \<open>v\<close> the variable is set to.
\<close>

theorem root_environment_field:
  "map_option fst (app (req\<lparr>http_method := ''GET'', path := ''/''\<rparr>)
       (w\<lparr>environ := (environ w)(''ENVIRONMENT'' := None)\<rparr>)) =
     Some (Inr \<lparr>status_code = 200,
       body = JObj [(''message'', JStr ''Welcome to FastAPI GitOps Demo''),
                    (''version'', JStr ''1.0.0''),
                    (''environment'', JStr ''development'')]\<rparr>)
   \<and> map_option fst (app (req\<lparr>http_method := ''GET'', path := ''/''\<rparr>)
       (w\<lparr>environ := (environ w)(''ENVIRONMENT'' \<mapsto> ''staging'')\<rparr>)) =
     Some (Inr \<lparr>status_code = 200,
       body = JObj [(''message'', JStr ''Welcome to FastAPI GitOps Demo''),
                    (''version'', JStr ''1.0.0''),
                    (''environment'', JStr ''staging'')]\<rparr>)
   \<and> map_option fst (app (req\<lparr>http_method := ''GET'', path := ''/''\<rparr>)
       (w\<lparr>environ := (environ w)(''ENVIRONMENT'' \<mapsto> v)\<rparr>)) =
     Some (Inr \<lparr>status_code = 200,
       body = JObj [(''message'', JStr ''Welcome to FastAPI GitOps Demo''),
                    (''version'', JStr ''1.0.0''),
                    (''environment'', JStr v)]\<rparr>)"
  by (simp add: app_routed [OF endpoint_simps(1)] root_handler_def logger_info_def getenv_def Let_def)

text \<open>
  C3. Whatever the downstream handler produces for the request (a response, with its
  status code, body and every further field, or an exception) is what the logging
  middleware returns, unchanged. The handler runs after the first clock read.
\<close>

theorem middleware_returns_downstream_result:
  "fst (logging_middleware req call_next w) = fst (call_next req (snd (time_time w)))"
  by (simp add: middleware_response time_time_simps split: prod.splits sum.splits)






text \<open>
  C6. A GET request to \<^verbatim>\<open>/health\<close> is answered with the constant body
  \<^verbatim>\<open>{"status": "healthy", "service": "fastapi-demo"}\<close>, whatever the process
  environment holds (\<^verbatim>\<open>ENVIRONMENT\<close> set to any value, or absent).
\<close>

theorem health_fixed_body:
  "map_option fst (app (req\<lparr>http_method := ''GET'', path := ''/health''\<rparr>) w) =
     Some (Inr \<lparr>status_code = 200,
       body = JObj [(''status'', JStr ''healthy''), (''service'', JStr ''fastapi-demo'')]\<rparr>)"
  by (simp add: app_routed [OF endpoint_simps(2)] health_def)

text \<open>
  C7. \<^verbatim>\<open>ENVIRONMENT\<close> is read on each request to \<^verbatim>\<open>/\<close> and to \<^verbatim>\<open>/api/status\<close>: when
  a first request has been served and the variable is then set to \<open>v\<close> (or removed),
  the next request reports \<open>v\<close> (or "development"), whatever the variable was during
  the first request.
\<close>

theorem environment_read_on_each_request:
  "Option.bind (app (req\<lparr>http_method := ''GET'', path := ''/''\<rparr>) w)
     (\<lambda>(r1, w1). map_option fst (app (req\<lparr>http_method := ''GET'', path := ''/''\<rparr>)
        (w1\<lparr>environ := (environ w1)(''ENVIRONMENT'' \<mapsto> v)\<rparr>))) =
     Some (Inr \<lparr>status_code = 200,
       body = JObj [(''message'', JStr ''Welcome to FastAPI GitOps Demo''),
                    (''version'', JStr ''1.0.0''),
                    (''environment'', JStr v)]\<rparr>)
   \<and> Option.bind (app (req\<lparr>http_method := ''GET'', path := ''/''\<rparr>) w)
     (\<lambda>(r1, w1). map_option fst (app (req\<lparr>http_method := ''GET'', path := ''/''\<rparr>)
        (w1\<lparr>environ := (environ w1)(''ENVIRONMENT'' := None)\<rparr>))) =
     Some (Inr \<lparr>status_code = 200,
       body = JObj [(''message'', JStr ''Welcome to FastAPI GitOps Demo''),
                    (''version'', JStr ''1.0.0''),
                    (''environment'', JStr ''development'')]\<rparr>)
   \<and> Option.bind (app (req\<lparr>http_method := ''GET'', path := ''/api/status''\<rparr>) w)
     (\<lambda>(r1, w1). map_option fst (app (req\<lparr>http_method := ''GET'', path := ''/api/status''\<rparr>)
        (w1\<lparr>environ := (environ w1)(''ENVIRONMENT'' \<mapsto> v)\<rparr>))) =
     Some (Inr \<lparr>status_code = 200,
       body = JObj [(''app'', JStr ''fastapi-demo''),
                    (''version'', JStr ''1.0.0''),
                    (''status'', JStr ''running''),
                    (''environment'', JStr v)]\<rparr>)
   \<and> Option.bind (app (req\<lparr>http_method := ''GET'', path := ''/api/status''\<rparr>) w)
     (\<lambda>(r1, w1). map_option fst (app (req\<lparr>http_method := ''GET'', path := ''/api/status''\<rparr>)
        (w1\<lparr>environ := (environ w1)(''ENVIRONMENT'' := None)\<rparr>))) =
     Some (Inr \<lparr>status_code = 200,
       body = JObj [(''app'', JStr ''fastapi-demo''),
                    (''version'', JStr ''1.0.0''),
                    (''status'', JStr ''running''),
                    (''environment'', JStr ''development'')]\<rparr>)"
  by (simp add: app_routed [OF endpoint_simps(1)] app_routed [OF endpoint_simps(5)]
      root_handler_def status_def logger_info_def getenv_def Let_def)

text \<open>
  C8. The response to a request depends on the process environment only: two requests
  with the same method and path, served in worlds with the same environment (whatever
  their logs and clocks), get the same status and the same JSON body, hence the same
  bytes once rendered; and a request repeated right after itself gets the response it
  got the first time.
\<close>

theorem identical_requests_identical_responses:
  assumes "environ w1 = environ w2"
  shows "map_option fst (app req w1) = map_option fst (app req w2)
         \<and> Option.bind (app req w1) (\<lambda>(r, w'). map_option fst (app req w')) =
             map_option fst (app req w1)"
proof (cases "endpoint req")
  case None
  then show ?thesis by (simp add: app_def)
next
  case (Some h)
  have e: "environ (w1\<lparr>reads := Suc (reads w1)\<rparr>) = environ (w2\<lparr>reads := Suc (reads w2)\<rparr>)"
    using assms by simp
  have a: "map_option fst (app req w1) = map_option fst (app req w2)"
    using handler_body_environ [OF Some e] by (simp add: app_routed [OF Some])
  have b: "Option.bind (app req w1) (\<lambda>(r, w'). map_option fst (app req w')) =
             map_option fst (app req w1)"
    by (simp add: app_routed [OF Some] logger_info_def)
      (rule handler_body_environ [OF Some], simp add: handler_frame [OF Some])
  from a b show ?thesis by simp
qed


theorem identical_requests_identical_responses_witness:
  "environ (quarter_second_world\<lparr>environ := [''ENVIRONMENT'' \<mapsto> ''staging'']\<rparr>) =
     environ (clock_set_back_world\<lparr>environ := [''ENVIRONMENT'' \<mapsto> ''staging'']\<rparr>)
   \<and> map_option fst (app (get_health\<lparr>path := ''/''\<rparr>)
         (quarter_second_world\<lparr>environ := [''ENVIRONMENT'' \<mapsto> ''staging'']\<rparr>)) =
       map_option fst (app (get_health\<lparr>path := ''/''\<rparr>)
         (clock_set_back_world\<lparr>environ := [''ENVIRONMENT'' \<mapsto> ''staging'']\<rparr>))
   \<and> map_option fst (app (get_health\<lparr>path := ''/''\<rparr>)
         (clock_set_back_world\<lparr>environ := [''ENVIRONMENT'' \<mapsto> ''staging'']\<rparr>)) =
       Some (Inr \<lparr>status_code = 200,
         body = JObj [(''message'', JStr ''Welcome to FastAPI GitOps Demo''),
                      (''version'', JStr ''1.0.0''),
                      (''environment'', JStr ''staging'')]\<rparr>)"
proof -
  have h: "environ (quarter_second_world\<lparr>environ := [''ENVIRONMENT'' \<mapsto> ''staging'']\<rparr>) =
     environ (clock_set_back_world\<lparr>environ := [''ENVIRONMENT'' \<mapsto> ''staging'']\<rparr>)"
    by simp
  have e: "endpoint (get_health\<lparr>path := ''/''\<rparr>) = Some root_handler"
    by (simp add: endpoint_def routes_def get_health_def)
  have v: "map_option fst (app (get_health\<lparr>path := ''/''\<rparr>)
         (clock_set_back_world\<lparr>environ := [''ENVIRONMENT'' \<mapsto> ''staging'']\<rparr>)) =
       Some (Inr \<lparr>status_code = 200,
         body = JObj [(''message'', JStr ''Welcome to FastAPI GitOps Demo''),
                      (''version'', JStr ''1.0.0''),
                      (''environment'', JStr ''staging'')]\<rparr>)"
    by (simp add: app_routed [OF e] root_handler_def logger_info_def getenv_def Let_def)
  have eq: "map_option fst (app (get_health\<lparr>path := ''/''\<rparr>)
         (quarter_second_world\<lparr>environ := [''ENVIRONMENT'' \<mapsto> ''staging'']\<rparr>)) =
       map_option fst (app (get_health\<lparr>path := ''/''\<rparr>)
         (clock_set_back_world\<lparr>environ := [''ENVIRONMENT'' \<mapsto> ''staging'']\<rparr>))"
    using identical_requests_identical_responses [OF h, of "get_health\<lparr>path := ''/''\<rparr>"]
    by (rule conjunct1)
  from h eq v show ?thesis by (intro conjI)
qed

text \<open>
  C9. A GET request to each of the five routes gets a response (no exception), with
  status 200 and the body of its route; \<^verbatim>\<open>/api/status\<close> answers app "fastapi-demo",
  version "1.0.0", status "running" and the environment setting.
\<close>

theorem every_route_answers_200:
  "map_option fst (app (req\<lparr>http_method := ''GET'', path := ''/''\<rparr>) w) =
     Some (Inr \<lparr>status_code = 200,
       body = JObj [(''message'', JStr ''Welcome to FastAPI GitOps Demo''),
                    (''version'', JStr ''1.0.0''),
                    (''environment'', JStr (getenv w ''ENVIRONMENT'' ''development''))]\<rparr>)
   \<and> map_option fst (app (req\<lparr>http_method := ''GET'', path := ''/health''\<rparr>) w) =
     Some (Inr \<lparr>status_code = 200,
       body = JObj [(''status'', JStr ''healthy''), (''service'', JStr ''fastapi-demo'')]\<rparr>)
   \<and> map_option fst (app (req\<lparr>http_method := ''GET'', path := ''/ready''\<rparr>) w) =
     Some (Inr \<lparr>status_code = 200,
       body = JObj [(''status'', JStr ''ready''), (''service'', JStr ''fastapi-demo'')]\<rparr>)
   \<and> map_option fst (app (req\<lparr>http_method := ''GET'', path := ''/api/items''\<rparr>) w) =
     Some (Inr \<lparr>status_code = 200,
       body = JObj [(''items'', JList
         [JObj [(''id'', JInt 1), (''name'', JStr ''Item 1''), (''description'', JStr ''First item'')],
          JObj [(''id'', JInt 2), (''name'', JStr ''Item 2''), (''description'', JStr ''Second item'')],
          JObj [(''id'', JInt 3), (''name'', JStr ''Item 3''), (''description'', JStr ''Third item'')]])]\<rparr>)
   \<and> map_option fst (app (req\<lparr>http_method := ''GET'', path := ''/api/status''\<rparr>) w) =
     Some (Inr \<lparr>status_code = 200,
       body = JObj [(''app'', JStr ''fastapi-demo''),
                    (''version'', JStr ''1.0.0''),
                    (''status'', JStr ''running''),
                    (''environment'', JStr (getenv w ''ENVIRONMENT'' ''development''))]\<rparr>)"
  by (simp add: app_routed endpoint_simps handler_defs Let_def)

text \<open>
  C10. With \<^verbatim>\<open>ENVIRONMENT\<close> set to the empty string, \<^verbatim>\<open>GET /\<close> and
  \<^verbatim>\<open>GET /api/status\<close> report the empty string. The answer carries "development"
  exactly when the variable is absent or is itself "development".
\<close>

theorem empty_environment_is_not_defaulted:
  "map_option fst (app (req\<lparr>http_method := ''GET'', path := ''/''\<rparr>)
       (w\<lparr>environ := (environ w)(''ENVIRONMENT'' \<mapsto> [])\<rparr>)) =
     Some (Inr \<lparr>status_code = 200,
       body = JObj [(''message'', JStr ''Welcome to FastAPI GitOps Demo''),
                    (''version'', JStr ''1.0.0''),
                    (''environment'', JStr [])]\<rparr>)
   \<and> map_option fst (app (req\<lparr>http_method := ''GET'', path := ''/api/status''\<rparr>)
       (w\<lparr>environ := (environ w)(''ENVIRONMENT'' \<mapsto> [])\<rparr>)) =
     Some (Inr \<lparr>status_code = 200,
       body = JObj [(''app'', JStr ''fastapi-demo''),
                    (''version'', JStr ''1.0.0''),
                    (''status'', JStr ''running''),
                    (''environment'', JStr [])]\<rparr>)
   \<and> (map_option fst (app (req\<lparr>http_method := ''GET'', path := ''/''\<rparr>) w) =
       Some (Inr \<lparr>status_code = 200,
         body = JObj [(''message'', JStr ''Welcome to FastAPI GitOps Demo''),
                      (''version'', JStr ''1.0.0''),
                      (''environment'', JStr ''development'')]\<rparr>))
     = (environ w ''ENVIRONMENT'' = None \<or> environ w ''ENVIRONMENT'' = Some ''development'')
   \<and> (map_option fst (app (req\<lparr>http_method := ''GET'', path := ''/api/status''\<rparr>) w) =
       Some (Inr \<lparr>status_code = 200,
         body = JObj [(''app'', JStr ''fastapi-demo''),
                      (''version'', JStr ''1.0.0''),
                      (''status'', JStr ''running''),
                      (''environment'', JStr ''development'')]\<rparr>))
     = (environ w ''ENVIRONMENT'' = None \<or> environ w ''ENVIRONMENT'' = Some ''development'')"
  by (simp add: app_routed endpoint_simps handler_defs Let_def split: option.splits)

end
